theory Spec2Isabelle
  imports Complex_Main
begin

section \<open>Data model of the fetcher\<close>

text \<open>
  A history row of the tracking service is a Python dict from metric key to value. Its
  iteration order matters to the fetcher (\<open>row.items()\<close>), so a row is an association
  list in iteration order. A value is a number or Python's \<open>None\<close>; \<open>None\<close> is the
  \<open>None\<close> of the option type. Keys are ASCII strings.
\<close>

type_synonym pyval = "real option"
type_synonym history_row = "(string \<times> pyval) list"

text \<open>\<open>row.get(key, None)\<close>: a missing key and a key bound to \<open>None\<close> both give \<open>None\<close>.\<close>

definition row_get :: "history_row \<Rightarrow> string \<Rightarrow> pyval" where
  "row_get row key = (case map_of row key of None \<Rightarrow> None | Some v \<Rightarrow> v)"

text \<open>
  The dict \<open>filtered_row\<close> built for each row in \<open>src/db/wandb_fetch.py\<close>. Every field
  except \<open>run_name\<close> starts as or may be \<open>None\<close>.
\<close>

record filtered_row =
  run_name :: string
  miner_id :: "int option"
  timestamp :: pyval
  score :: pyval
  loss :: pyval
  top1_recall :: pyval
  top3_recall :: pyval

subsection \<open>String helpers\<close>

text \<open>\<open>s.startswith(p)\<close>\<close>

fun startswith :: "string \<Rightarrow> string \<Rightarrow> bool" where
  "startswith s [] = True"
| "startswith [] (p # ps) = False"
| "startswith (c # cs) (p # ps) = (c = p \<and> startswith cs ps)"

definition is_digit :: "char \<Rightarrow> bool" where
  "is_digit c = (48 \<le> (of_char c :: nat) \<and> (of_char c :: nat) \<le> 57)"

text \<open>\<open>int(digits)\<close> on a string of decimal digits.\<close>

definition digits_to_nat :: "string \<Rightarrow> nat" where
  "digits_to_nat ds = foldl (\<lambda>acc c. 10 * acc + (of_char c - 48)) 0 ds"

text \<open>
  \<open>extract_miner_id(key)\<close>: \<open>re.search(r'\.(\d+)$', key)\<close>, then \<open>int(match.group(1))\<close>,
  or \<open>None\<close> without a match. The pattern asks for a dot, one or more digits and the end of
  the string; Python's \<open>$\<close> also matches just before one final newline. The digits hold no
  dot, so the only candidate is the longest run of digits at the end.
\<close>

definition extract_miner_id :: "string \<Rightarrow> int option" where
  "extract_miner_id key =
     (let k = (if key \<noteq> [] \<and> last key = CHR 0x0A then butlast key else key);
          digits = rev (takeWhile is_digit (rev k));
          prefix_rev = dropWhile is_digit (rev k)
      in if digits \<noteq> [] \<and> prefix_rev \<noteq> [] \<and> hd prefix_rev = CHR ''.''
         then Some (int (digits_to_nat digits))
         else None)"

section \<open>The fetcher of src/db/wandb\_fetch.py\<close>

text \<open>The body of the loop over \<open>row.items()\<close>: the \<open>if\<close>/\<open>elif\<close> chain on one key.\<close>

definition scan_key :: "string \<Rightarrow> pyval \<Rightarrow> filtered_row \<Rightarrow> filtered_row" where
  "scan_key key v fr =
     (if startswith key ''TextEmbeddingSynapse_raw_scores'' \<and> v \<noteq> None
      then fr\<lparr>score := v, miner_id := extract_miner_id key\<rparr>
      else if startswith key ''TextEmbeddingSynapse_losses'' \<and> v \<noteq> None
      then fr\<lparr>loss := v, miner_id := extract_miner_id key\<rparr>
      else if startswith key ''TextEmbeddingSynapse_top1_recalls'' \<and> v \<noteq> None
      then fr\<lparr>top1_recall := v, miner_id := extract_miner_id key\<rparr>
      else if startswith key ''TextEmbeddingSynapse_top3_recalls'' \<and> v \<noteq> None
      then fr\<lparr>top3_recall := v, miner_id := extract_miner_id key\<rparr>
      else fr)"

fun scan_items :: "history_row \<Rightarrow> filtered_row \<Rightarrow> filtered_row" where
  "scan_items [] fr = fr"
| "scan_items ((key, v) # items) fr = scan_items items (scan_key key v fr)"

text \<open>The initial \<open>filtered_row\<close> of a row with timestamp \<open>ts\<close>.\<close>

definition init_row :: "string \<Rightarrow> pyval \<Rightarrow> filtered_row" where
  "init_row run_id ts =
     \<lparr>run_name = run_id, miner_id = None, timestamp = ts, score = None, loss = None,
      top1_recall = None, top3_recall = None\<rparr>"

text \<open>\<open>all(filtered_row[field] is not None for field in [...])\<close>\<close>

definition all_populated :: "filtered_row \<Rightarrow> bool" where
  "all_populated fr =
     (score fr \<noteq> None \<and> loss fr \<noteq> None \<and> top1_recall fr \<noteq> None \<and> top3_recall fr \<noteq> None)"

text \<open>
  The loop over \<open>run.scan_history(page_size=1)\<close>. The result is \<open>history_data\<close>, in the
  order of the appends; \<open>break\<close> ends the loop with what was appended so far.
\<close>

fun scan_history_db :: "string \<Rightarrow> pyval \<Rightarrow> history_row list \<Rightarrow> filtered_row list" where
  "scan_history_db run_id start_time [] = []"
| "scan_history_db run_id start_time (row # rows) =
     (case row_get row ''_timestamp'' of
        None \<Rightarrow> scan_history_db run_id start_time rows
      | Some ts \<Rightarrow>
          if start_time \<noteq> None \<and> ts < the start_time then []
          else (let fr = scan_items row (init_row run_id (Some ts))
                in if all_populated fr
                   then fr # scan_history_db run_id start_time rows
                   else scan_history_db run_id start_time rows))"

text \<open>The path \<open>f"openkaito/sn5-validators/{run_id}"\<close> given to \<open>api.run\<close>.\<close>

definition run_path :: "string \<Rightarrow> string" where
  "run_path run_id = ''openkaito/sn5-validators/'' @ run_id"

text \<open>
  \<open>fetch_run_data(api, run_id, start_time)\<close>. The tracking service is the function \<open>api\<close>
  from the path of a run to its history; the data frame is the list of its rows.
\<close>

definition fetch_run_data ::
  "(string \<Rightarrow> history_row list) \<Rightarrow> string \<Rightarrow> pyval \<Rightarrow> filtered_row list \<times> string" where
  "fetch_run_data api run_id start_time =
     (scan_history_db run_id start_time (api (run_path run_id)), run_id)"

section \<open>The fetcher of src/wandb\_fetch.py\<close>

text \<open>The same loop without the metric filter: a retained row is appended as it is.\<close>

fun scan_history_plain :: "pyval \<Rightarrow> history_row list \<Rightarrow> history_row list" where
  "scan_history_plain start_time [] = []"
| "scan_history_plain start_time (row # rows) =
     (case row_get row ''_timestamp'' of
        None \<Rightarrow> scan_history_plain start_time rows
      | Some ts \<Rightarrow>
          if start_time \<noteq> None \<and> ts < the start_time then []
          else row # scan_history_plain start_time rows)"

definition fetch_run_data_plain ::
  "(string \<Rightarrow> history_row list) \<Rightarrow> string \<Rightarrow> pyval \<Rightarrow> history_row list \<times> string" where
  "fetch_run_data_plain api run_id start_time =
     (scan_history_plain start_time (api (run_path run_id)), run_id)"

section \<open>The publisher: put\_records\_to\_kinesis\<close>

text \<open>
  The streaming client is outside the repository. A call of \<open>put_records\<close> either raises
  (with the text \<open>str(e)\<close>) or returns a response holding \<open>FailedRecordCount\<close> and one
  entry per record, an entry carrying an \<open>ErrorCode\<close> when the record was rejected. The
  client is a transition function on its own state, so it may answer each round differently.
\<close>

record put_records_entry =
  ErrorCode :: "string option"

record put_records_response =
  FailedRecordCount :: int
  Records :: "put_records_entry list"

datatype client_outcome = Raises string | Returns put_records_response

type_synonym ('s, 'r) kinesis_client = "'s \<Rightarrow> 'r list \<Rightarrow> string \<Rightarrow> client_outcome \<times> 's"

datatype py_error = RuntimeError string | IndexError

text \<open>
  \<open>res.get("ErrorCode")\<close> is truthy: the key is present, not \<open>None\<close> and not the empty
  string.
\<close>

definition has_error_code :: "put_records_entry \<Rightarrow> bool" where
  "has_error_code res = (case ErrorCode res of None \<Rightarrow> False | Some c \<Rightarrow> c \<noteq> [])"

text \<open>
  The loop \<open>for idx, res in enumerate(response["Records"])\<close>, carrying \<open>codes\<close> and
  \<open>failed_records\<close>. \<open>records_to_kinesis[idx]\<close> raises \<open>IndexError\<close> out of range.
\<close>

fun enumerate_records ::
  "'r list \<Rightarrow> nat \<Rightarrow> put_records_entry list \<Rightarrow> string list \<Rightarrow> 'r list
   \<Rightarrow> py_error + (string list \<times> 'r list)" where
  "enumerate_records records_to_kinesis idx [] codes failed_records =
     Inr (codes, failed_records)"
| "enumerate_records records_to_kinesis idx (res # rest) codes failed_records =
     (if \<not> has_error_code res
      then enumerate_records records_to_kinesis (Suc idx) rest codes failed_records
      else if idx < length records_to_kinesis
      then enumerate_records records_to_kinesis (Suc idx) rest
             (codes @ [the (ErrorCode res)]) (failed_records @ [records_to_kinesis ! idx])
      else Inl IndexError)"

text \<open>\<open>sep.join(xs)\<close>\<close>

fun join :: "string \<Rightarrow> string list \<Rightarrow> string" where
  "join sep [] = []"
| "join sep [x] = x"
| "join sep (x # y # ys) = x @ sep @ join sep (y # ys)"

text \<open>
  Lines 12 to 38: the failed records and the error message after one call of the client
  with outcome \<open>out\<close>. A response is a dict with both keys, hence truthy.
\<close>

definition failed_after ::
  "'r list \<Rightarrow> client_outcome \<Rightarrow> py_error + ('r list \<times> string)" where
  "failed_after records_to_kinesis out =
     (case out of
        Raises e \<Rightarrow> Inr (records_to_kinesis, e)
      | Returns response \<Rightarrow>
          if FailedRecordCount response > 0
          then (case enumerate_records records_to_kinesis 0 (Records response) [] [] of
                  Inl err \<Rightarrow> Inl err
                | Inr (codes, failed_records) \<Rightarrow>
                    Inr (failed_records, ''Individual error codes: '' @ join '','' codes))
          else Inr ([], []))"

text \<open>\<open>str(n)\<close> for an integer.\<close>

function str_nat :: "nat \<Rightarrow> string" where
  "str_nat n =
     (if n < 10 then [char_of (48 + n)]
      else str_nat (n div 10) @ [char_of (48 + n mod 10)])"
  by pat_completeness auto
termination
  by (relation "measure id") auto

definition str_int :: "int \<Rightarrow> string" where
  "str_int i = (if i < 0 then CHR ''-'' # str_nat (nat (- i)) else str_nat (nat i))"

text \<open>
  \<open>put_records_to_kinesis(records_to_kinesis, kinesis_client, stream_name, retry_times)\<close>,
  with the state of the client passed along. The result is: the error raised or \<open>Inr ()\<close>
  for a normal return, the batches given to \<open>put_records\<close> in the order of the calls, and
  the final state of the client. The pause and the printing are left out.
\<close>

function put_records_to_kinesis ::
  "'r list \<Rightarrow> ('s, 'r) kinesis_client \<Rightarrow> 's \<Rightarrow> string \<Rightarrow> int
   \<Rightarrow> (py_error + unit) \<times> 'r list list \<times> 's" where
  "put_records_to_kinesis records_to_kinesis kinesis_client st stream_name retry_times =
     (case kinesis_client st records_to_kinesis stream_name of
        (out, st') \<Rightarrow>
          (case failed_after records_to_kinesis out of
             Inl err \<Rightarrow> (Inl err, [records_to_kinesis], st')
           | Inr (failed_records, err_msg) \<Rightarrow>
               if failed_records \<noteq> []
               then if retry_times > 0
                    then (case put_records_to_kinesis failed_records kinesis_client st'
                                 stream_name (retry_times - 1) of
                            (res, sent, st'') \<Rightarrow> (res, records_to_kinesis # sent, st''))
                    else (Inl (RuntimeError (''Could not put records after ''
                                 @ str_int retry_times @ '' attempts. '' @ err_msg)),
                          [records_to_kinesis], st')
               else (Inr (), [records_to_kinesis], st')))"
  by pat_completeness auto
termination
  by (relation "measure (\<lambda>(records, client, st, stream, retry). nat retry)") auto

declare put_records_to_kinesis.simps [simp del]

section \<open>The codec: send\_to\_kinesis\<close>

record publish_record =
  Data :: string
  PartitionKey :: string

text \<open>
  One round of the loop over \<open>metrics_dataframe.iterrows()\<close>. \<open>json.dumps\<close> of the row's
  dict and the built-in \<open>hash\<close>, which is seeded once per process, are library functions
  and are parameters here.
\<close>

definition encode_row ::
  "(filtered_row \<Rightarrow> string) \<Rightarrow> (string \<Rightarrow> int) \<Rightarrow> filtered_row \<Rightarrow> publish_record" where
  "encode_row json_dumps py_hash row =
     \<lparr>Data = json_dumps row @ [CHR 0x0A], PartitionKey = str_int (py_hash (run_name row))\<rparr>"

fun build_records ::
  "(filtered_row \<Rightarrow> string) \<Rightarrow> (string \<Rightarrow> int) \<Rightarrow> filtered_row list
   \<Rightarrow> publish_record list \<Rightarrow> publish_record list" where
  "build_records json_dumps py_hash [] records_to_kinesis = records_to_kinesis"
| "build_records json_dumps py_hash (row # rows) records_to_kinesis =
     build_records json_dumps py_hash rows
       (records_to_kinesis @ [encode_row json_dumps py_hash row])"

definition send_to_kinesis ::
  "(filtered_row \<Rightarrow> string) \<Rightarrow> (string \<Rightarrow> int) \<Rightarrow> filtered_row list \<Rightarrow> string
   \<Rightarrow> ('s, publish_record) kinesis_client \<Rightarrow> 's
   \<Rightarrow> (py_error + unit) \<times> publish_record list list \<times> 's" where
  "send_to_kinesis json_dumps py_hash metrics_dataframe stream_name kinesis_client st =
     put_records_to_kinesis (build_records json_dumps py_hash metrics_dataframe [])
       kinesis_client st stream_name 10"

section \<open>Notions used to state the properties\<close>



text \<open>The key starts with one of the four prefixes of the \<open>if\<close>/\<open>elif\<close> chain.\<close>

definition recognized_key :: "string \<Rightarrow> bool" where
  "recognized_key key =
     (startswith key ''TextEmbeddingSynapse_raw_scores'' \<or>
      startswith key ''TextEmbeddingSynapse_losses'' \<or>
      startswith key ''TextEmbeddingSynapse_top1_recalls'' \<or>
      startswith key ''TextEmbeddingSynapse_top3_recalls'')"

text \<open>
  The keys of a row that take a branch of the chain: a recognized prefix and a value that
  is not \<open>None\<close>, in iteration order.
\<close>

definition effective_keys :: "history_row \<Rightarrow> string list" where
  "effective_keys row = map fst (filter (\<lambda>(key, v). recognized_key key \<and> v \<noteq> None) row)"

subsection \<open>Example histories\<close>

text \<open>The scenario as four rows, one metric key of miner 7 in each.\<close>

definition four_row_history :: "history_row list" where
  "four_row_history =
     [[(''_timestamp'', Some 100), (''TextEmbeddingSynapse_raw_scores.7'', Some (9 / 10))],
      [(''_timestamp'', Some 100), (''TextEmbeddingSynapse_losses.7'', Some (2 / 10))],
      [(''_timestamp'', Some 100), (''TextEmbeddingSynapse_top1_recalls.7'', Some (5 / 10))],
      [(''_timestamp'', Some 100), (''TextEmbeddingSynapse_top3_recalls.7'', Some (8 / 10))]]"

text \<open>The same four keys in one row.\<close>

definition one_row_history :: "history_row list" where
  "one_row_history =
     [[(''_timestamp'', Some 100), (''TextEmbeddingSynapse_raw_scores.7'', Some (9 / 10)),
       (''TextEmbeddingSynapse_losses.7'', Some (2 / 10)),
       (''TextEmbeddingSynapse_top1_recalls.7'', Some (5 / 10)),
       (''TextEmbeddingSynapse_top3_recalls.7'', Some (8 / 10))]]"

definition scenario_record :: filtered_row where
  "scenario_record =
     \<lparr>run_name = ''r1'', miner_id = Some 7, timestamp = Some 100, score = Some (9 / 10),
      loss = Some (2 / 10), top1_recall = Some (5 / 10), top3_recall = Some (8 / 10)\<rparr>"

text \<open>One row whose metric keys name miners 1, 2 and 3, the last key naming none.\<close>

definition mixed_miner_history :: "history_row list" where
  "mixed_miner_history =
     [[(''_timestamp'', Some 100), (''TextEmbeddingSynapse_raw_scores.1'', Some (9 / 10)),
       (''TextEmbeddingSynapse_losses.2'', Some (2 / 10)),
       (''TextEmbeddingSynapse_top1_recalls.3'', Some (5 / 10)),
       (''TextEmbeddingSynapse_top3_recalls'', Some (8 / 10))]]"

text \<open>One row with the four metrics of miner 1, then a score key of miner 2 bound to \<open>None\<close>.\<close>

definition null_last_history :: "history_row list" where
  "null_last_history =
     [[(''_timestamp'', Some 100), (''TextEmbeddingSynapse_raw_scores.1'', Some (9 / 10)),
       (''TextEmbeddingSynapse_losses.1'', Some (2 / 10)),
       (''TextEmbeddingSynapse_top1_recalls.1'', Some (5 / 10)),
       (''TextEmbeddingSynapse_top3_recalls.1'', Some (8 / 10)),
       (''TextEmbeddingSynapse_raw_scores.2'', None)]]"

text \<open>A descending history with timestamps 300, 200 and 100, and a row without timestamp.\<close>

definition metrics_of :: "string \<Rightarrow> (string \<times> pyval) list" where
  "metrics_of suffix =
     [(''TextEmbeddingSynapse_raw_scores'' @ suffix, Some (9 / 10)),
      (''TextEmbeddingSynapse_losses'' @ suffix, Some (2 / 10)),
      (''TextEmbeddingSynapse_top1_recalls'' @ suffix, Some (5 / 10)),
      (''TextEmbeddingSynapse_top3_recalls'' @ suffix, Some (8 / 10))]"

definition straddling_history :: "history_row list" where
  "straddling_history =
     [(''_timestamp'', Some 300) # metrics_of ''.4'',
      (''_timestamp'', Some 200) # metrics_of ''.5'',
      (''_timestamp'', Some 100) # metrics_of ''.6'']"

definition untimed_row :: history_row where
  "untimed_row = (''_timestamp'', None) # metrics_of ''.9''"

subsection \<open>Outcomes of the sink\<close>

text \<open>
  The positions of a response whose entry carries an error code: the index set \<open>S\<close> of the
  rejected records.
\<close>

definition rejected_positions :: "put_records_response \<Rightarrow> nat set" where
  "rejected_positions response =
     set (filter (\<lambda>i. has_error_code (Records response ! i)) [0..<length (Records response)])"




subsection \<open>Example sinks\<close>

text \<open>A sink whose every request fails in transport.\<close>

definition down_client :: "(unit, 'r) kinesis_client" where
  "down_client st records stream_name = (Raises ''connection refused'', st)"

text \<open>A sink that counts its calls: the first two fail in transport, the later ones accept all.\<close>

definition flaky_client :: "(nat, 'r) kinesis_client" where
  "flaky_client st records stream_name =
     (if st < 2 then Raises ''timeout''
      else Returns \<lparr>FailedRecordCount = 0,
                    Records = map (\<lambda>r. \<lparr>ErrorCode = None\<rparr>) records\<rparr>,
      Suc st)"

text \<open>
  A sink that counts its calls: the first rejects every second record, starting with the
  first one, the later ones accept all.
\<close>

fun alternate :: "nat \<Rightarrow> put_records_entry list" where
  "alternate 0 = []"
| "alternate (Suc 0) = [\<lparr>ErrorCode = Some ''InternalFailure''\<rparr>]"
| "alternate (Suc (Suc n)) =
     \<lparr>ErrorCode = Some ''InternalFailure''\<rparr> # \<lparr>ErrorCode = None\<rparr> # alternate n"

definition picky_client :: "(nat, 'r) kinesis_client" where
  "picky_client st records stream_name =
     (if st = 0
      then Returns \<lparr>FailedRecordCount = int ((length records + 1) div 2),
                    Records = alternate (length records)\<rparr>
      else Returns \<lparr>FailedRecordCount = 0,
                    Records = map (\<lambda>r. \<lparr>ErrorCode = None\<rparr>) records\<rparr>,
      Suc st)"

section \<open>Properties of the fetcher\<close>

subsection \<open>What the scan of one row stores\<close>

lemma scan_key_run_name: "run_name (scan_key key v fr) = run_name fr"
  by (simp add: scan_key_def)

lemma scan_key_timestamp: "timestamp (scan_key key v fr) = timestamp fr"
  by (simp add: scan_key_def)

lemma scan_items_run_name: "run_name (scan_items items fr) = run_name fr"
  by (induction items arbitrary: fr) (auto simp: scan_key_run_name)

lemma scan_items_timestamp: "timestamp (scan_items items fr) = timestamp fr"
  by (induction items arbitrary: fr) (auto simp: scan_key_timestamp)

lemma scan_key_score:
  "score (scan_key key v fr) = score fr \<or>
   (startswith key ''TextEmbeddingSynapse_raw_scores'' \<and> v \<noteq> None \<and> score (scan_key key v fr) = v)"
  by (simp add: scan_key_def)

lemma scan_key_loss:
  "loss (scan_key key v fr) = loss fr \<or>
   (startswith key ''TextEmbeddingSynapse_losses'' \<and> v \<noteq> None \<and> loss (scan_key key v fr) = v)"
  by (simp add: scan_key_def)

lemma scan_key_top1:
  "top1_recall (scan_key key v fr) = top1_recall fr \<or>
   (startswith key ''TextEmbeddingSynapse_top1_recalls'' \<and> v \<noteq> None \<and> top1_recall (scan_key key v fr) = v)"
  by (simp add: scan_key_def)

lemma scan_key_top3:
  "top3_recall (scan_key key v fr) = top3_recall fr \<or>
   (startswith key ''TextEmbeddingSynapse_top3_recalls'' \<and> v \<noteq> None \<and> top3_recall (scan_key key v fr) = v)"
  by (simp add: scan_key_def)

lemma scan_items_score:
  "score (scan_items items fr) = score fr \<or>
   (\<exists>key. startswith key ''TextEmbeddingSynapse_raw_scores'' \<and> score (scan_items items fr) \<noteq> None
      \<and> (key, score (scan_items items fr)) \<in> set items)"
proof (induction items arbitrary: fr)
  case Nil
  then show ?case by simp
next
  case (Cons kv items)
  obtain key v where kv: "kv = (key, v)" by (cases kv)
  from Cons.IH [of "scan_key key v fr"] scan_key_score [of key v fr] kv
  show ?case by auto
qed

lemma scan_items_loss:
  "loss (scan_items items fr) = loss fr \<or>
   (\<exists>key. startswith key ''TextEmbeddingSynapse_losses'' \<and> loss (scan_items items fr) \<noteq> None
      \<and> (key, loss (scan_items items fr)) \<in> set items)"
proof (induction items arbitrary: fr)
  case Nil
  then show ?case by simp
next
  case (Cons kv items)
  obtain key v where kv: "kv = (key, v)" by (cases kv)
  from Cons.IH [of "scan_key key v fr"] scan_key_loss [of key v fr] kv
  show ?case by auto
qed

lemma scan_items_top1:
  "top1_recall (scan_items items fr) = top1_recall fr \<or>
   (\<exists>key. startswith key ''TextEmbeddingSynapse_top1_recalls'' \<and> top1_recall (scan_items items fr) \<noteq> None
      \<and> (key, top1_recall (scan_items items fr)) \<in> set items)"
proof (induction items arbitrary: fr)
  case Nil
  then show ?case by simp
next
  case (Cons kv items)
  obtain key v where kv: "kv = (key, v)" by (cases kv)
  from Cons.IH [of "scan_key key v fr"] scan_key_top1 [of key v fr] kv
  show ?case by auto
qed

lemma scan_items_top3:
  "top3_recall (scan_items items fr) = top3_recall fr \<or>
   (\<exists>key. startswith key ''TextEmbeddingSynapse_top3_recalls'' \<and> top3_recall (scan_items items fr) \<noteq> None
      \<and> (key, top3_recall (scan_items items fr)) \<in> set items)"
proof (induction items arbitrary: fr)
  case Nil
  then show ?case by simp
next
  case (Cons kv items)
  obtain key v where kv: "kv = (key, v)" by (cases kv)
  from Cons.IH [of "scan_key key v fr"] scan_key_top3 [of key v fr] kv
  show ?case by auto
qed

text \<open>Every emitted record is the scan of one row of the history that passed the gate.\<close>

lemma scan_db_emitted:
  "r \<in> set (scan_history_db run_id start_time rows) \<Longrightarrow>
     \<exists>row \<in> set rows. \<exists>ts. row_get row ''_timestamp'' = Some ts
        \<and> r = scan_items row (init_row run_id (Some ts)) \<and> all_populated r"
proof (induction rows)
  case Nil
  then show ?case by simp
next
  case (Cons row rows)
  show ?case
  proof (cases "row_get row ''_timestamp''")
    case None
    with Cons show ?thesis by auto
  next
    case (Some ts)
    with Cons.prems have
      "r \<in> set (scan_history_db run_id start_time rows) \<or>
       (r = scan_items row (init_row run_id (Some ts)) \<and> all_populated r)"
      by (auto simp: Let_def split: if_splits)
    with Cons.IH Some show ?thesis by auto
  qed
qed

lemma scan_db_length: "length (scan_history_db run_id start_time rows) \<le> length rows"
  by (induction rows) (auto simp: Let_def split: option.splits)

lemma effective_keys_Cons:
  "effective_keys ((key, v) # items) =
     (if recognized_key key \<and> v \<noteq> None then [key] else []) @ effective_keys items"
  by (simp add: effective_keys_def)

lemma scan_key_miner_id:
  "miner_id (scan_key key v fr) =
     (if recognized_key key \<and> v \<noteq> None then extract_miner_id key else miner_id fr)"
  by (simp add: scan_key_def recognized_key_def)

lemma scan_items_miner_id:
  "miner_id (scan_items items fr) =
     (if effective_keys items = [] then miner_id fr
      else extract_miner_id (last (effective_keys items)))"
proof (induction items arbitrary: fr)
  case Nil
  then show ?case by (simp add: effective_keys_def)
next
  case (Cons kv items)
  obtain key v where kv: "kv = (key, v)" by (cases kv)
  show ?case
    unfolding kv scan_items.simps Cons.IH effective_keys_Cons scan_key_miner_id
    by auto
qed

lemma populated_effective:
  "all_populated (scan_items row (init_row run_id ts)) \<Longrightarrow> effective_keys row \<noteq> []"
proof
  assume pop: "all_populated (scan_items row (init_row run_id ts))" and e: "effective_keys row = []"
  from scan_items_score [of row "init_row run_id ts"] pop
  obtain key where "startswith key ''TextEmbeddingSynapse_raw_scores''"
    and "score (scan_items row (init_row run_id ts)) \<noteq> None"
    and "(key, score (scan_items row (init_row run_id ts))) \<in> set row"
    by (auto simp: all_populated_def init_row_def)
  then have "key \<in> set (effective_keys row)"
    by (force simp: effective_keys_def recognized_key_def)
  with e show False by simp
qed

subsection \<open>The cutoff\<close>








lemma scan_db_skip:
  "row_get row ''_timestamp'' = None \<Longrightarrow>
     scan_history_db run_id start_time (pre @ row # post) =
     scan_history_db run_id start_time (pre @ post)"
  by (induction pre) (auto split: option.splits simp: Let_def)

lemma scan_plain_skip:
  "row_get row ''_timestamp'' = None \<Longrightarrow>
     scan_history_plain start_time (pre @ row # post) =
     scan_history_plain start_time (pre @ post)"
  by (induction pre) (auto split: option.splits)

subsection \<open>Emitted records\<close>

text \<open>
  C1, as the code has it. The gate before the append looks at the four metric fields only,
  and each row starts from a fresh \<open>filtered_row\<close>. So every record the fetcher returns has
  the run id as \<open>run_name\<close> and a timestamp, a score, a loss, a top-1 recall and a top-3
  recall that are not \<open>None\<close>, and it comes from one row of the history, with that timestamp,
  which binds a key of each of the four prefixes to the value stored. Nothing is promised
  about \<open>miner_id\<close>, nor that the four keys name one miner.
\<close>

theorem emitted_record_fields:
  assumes "r \<in> set (fst (fetch_run_data api run_id start_time))"
  shows "run_name r = run_id \<and> timestamp r \<noteq> None \<and> score r \<noteq> None \<and> loss r \<noteq> None
       \<and> top1_recall r \<noteq> None \<and> top3_recall r \<noteq> None
       \<and> (\<exists>row \<in> set (api (run_path run_id)).
            row_get row ''_timestamp'' = timestamp r
          \<and> (\<exists>key. startswith key ''TextEmbeddingSynapse_raw_scores'' \<and> (key, score r) \<in> set row)
          \<and> (\<exists>key. startswith key ''TextEmbeddingSynapse_losses'' \<and> (key, loss r) \<in> set row)
          \<and> (\<exists>key. startswith key ''TextEmbeddingSynapse_top1_recalls''
                  \<and> (key, top1_recall r) \<in> set row)
          \<and> (\<exists>key. startswith key ''TextEmbeddingSynapse_top3_recalls''
                  \<and> (key, top3_recall r) \<in> set row))"
proof -
  from assms have "r \<in> set (scan_history_db run_id start_time (api (run_path run_id)))"
    by (simp add: fetch_run_data_def)
  from scan_db_emitted [OF this]
  obtain row ts where row: "row \<in> set (api (run_path run_id))"
    and ts: "row_get row ''_timestamp'' = Some ts"
    and r: "r = scan_items row (init_row run_id (Some ts))" and pop: "all_populated r"
    by blast
  have name: "run_name r = run_id" and stamp: "timestamp r = Some ts"
    by (simp_all add: r scan_items_run_name scan_items_timestamp init_row_def)
  from pop have nn: "score r \<noteq> None" "loss r \<noteq> None" "top1_recall r \<noteq> None" "top3_recall r \<noteq> None"
    by (simp_all add: all_populated_def)
  have k1: "\<exists>key. startswith key ''TextEmbeddingSynapse_raw_scores'' \<and> (key, score r) \<in> set row"
    using scan_items_score [of row "init_row run_id (Some ts)"] nn(1)
    by (auto simp: r init_row_def)
  have k2: "\<exists>key. startswith key ''TextEmbeddingSynapse_losses'' \<and> (key, loss r) \<in> set row"
    using scan_items_loss [of row "init_row run_id (Some ts)"] nn(2)
    by (auto simp: r init_row_def)
  have k3: "\<exists>key. startswith key ''TextEmbeddingSynapse_top1_recalls'' \<and> (key, top1_recall r) \<in> set row"
    using scan_items_top1 [of row "init_row run_id (Some ts)"] nn(3)
    by (auto simp: r init_row_def)
  have k4: "\<exists>key. startswith key ''TextEmbeddingSynapse_top3_recalls'' \<and> (key, top3_recall r) \<in> set row"
    using scan_items_top3 [of row "init_row run_id (Some ts)"] nn(4)
    by (auto simp: r init_row_def)
  from row ts stamp k1 k2 k3 k4 have
    "\<exists>row \<in> set (api (run_path run_id)).
            row_get row ''_timestamp'' = timestamp r
          \<and> (\<exists>key. startswith key ''TextEmbeddingSynapse_raw_scores'' \<and> (key, score r) \<in> set row)
          \<and> (\<exists>key. startswith key ''TextEmbeddingSynapse_losses'' \<and> (key, loss r) \<in> set row)
          \<and> (\<exists>key. startswith key ''TextEmbeddingSynapse_top1_recalls''
                  \<and> (key, top1_recall r) \<in> set row)
          \<and> (\<exists>key. startswith key ''TextEmbeddingSynapse_top3_recalls''
                  \<and> (key, top3_recall r) \<in> set row)"
    by (intro bexI [of _ row]) simp_all
  with name stamp nn show ?thesis by simp
qed

theorem emitted_record_fields_witness:
  "scenario_record \<in> set (fst (fetch_run_data (\<lambda>path. one_row_history) ''r1'' None))
   \<and> run_name scenario_record = ''r1'' \<and> timestamp scenario_record \<noteq> None
   \<and> score scenario_record \<noteq> None \<and> loss scenario_record \<noteq> None
   \<and> top1_recall scenario_record \<noteq> None \<and> top3_recall scenario_record \<noteq> None"
proof -
  have h: "scenario_record \<in> set (fst (fetch_run_data (\<lambda>path. one_row_history) ''r1'' None))"
    by code_simp
  from emitted_record_fields [OF h] h show ?thesis by simp
qed

text \<open>
  C1 as stated fails: the row of \<open>mixed_miner_history\<close> takes its score from a key of
  miner 1, its loss from miner 2, its top-1 recall from miner 3 and its top-3 recall from a
  key without miner id; a record is emitted and its \<open>miner_id\<close> is \<open>None\<close>.
\<close>

theorem emitted_record_null_miner_counterexample:
  "fetch_run_data (\<lambda>path. mixed_miner_history) ''r1'' None =
     ([\<lparr>run_name = ''r1'', miner_id = None, timestamp = Some 100, score = Some (9 / 10),
        loss = Some (2 / 10), top1_recall = Some (5 / 10), top3_recall = Some (8 / 10)\<rparr>],
      ''r1'')"
  by code_simp

text \<open>
  C2, as the code has it: with the four metric keys of miner 7 in one row at timestamp 100
  and no cutoff, the fetcher returns exactly the record of the scenario; with the keys spread
  over four rows it returns no record, since each row is gated on its own.
\<close>

theorem scenario_one_row:
  "fetch_run_data (\<lambda>path. one_row_history) ''r1'' None = ([scenario_record], ''r1'')
   \<and> fst (fetch_run_data (\<lambda>path. four_row_history) ''r1'' None) = []"
  by code_simp

text \<open>C2 as stated fails: on the four rows in the order listed nothing is returned.\<close>

theorem scenario_four_rows_counterexample:
  "fst (fetch_run_data (\<lambda>path. four_row_history) ''r1'' None) \<noteq> [scenario_record]"
  by code_simp



text \<open>
  C9: a row whose \<open>_timestamp\<close> is absent or \<open>None\<close> is skipped. With or without cutoff,
  both fetchers return on a stream holding such a row what they return on the stream
  without it: no record for the row, and the scan goes on with the rows after it.
\<close>

theorem null_timestamp_row_skipped:
  assumes "row_get row ''_timestamp'' = None"
  shows "fetch_run_data (\<lambda>path. pre @ row # post) run_id start_time =
           fetch_run_data (\<lambda>path. pre @ post) run_id start_time
       \<and> fetch_run_data_plain (\<lambda>path. pre @ row # post) run_id start_time =
           fetch_run_data_plain (\<lambda>path. pre @ post) run_id start_time"
  using scan_db_skip [OF assms] scan_plain_skip [OF assms]
  by (simp add: fetch_run_data_def fetch_run_data_plain_def)

theorem null_timestamp_row_skipped_witness:
  "row_get untimed_row ''_timestamp'' = None
   \<and> fetch_run_data (\<lambda>path. take 1 straddling_history @ untimed_row # drop 1 straddling_history)
        ''r1'' (Some 200) =
      fetch_run_data (\<lambda>path. take 1 straddling_history @ drop 1 straddling_history)
        ''r1'' (Some 200)
   \<and> length (fst (fetch_run_data
        (\<lambda>path. take 1 straddling_history @ untimed_row # drop 1 straddling_history)
        ''r1'' (Some 200))) = 2"
proof -
  have h: "row_get untimed_row ''_timestamp'' = None"
    by code_simp
  have k: "length (fst (fetch_run_data
      (\<lambda>path. take 1 straddling_history @ drop 1 straddling_history) ''r1'' (Some 200))) = 2"
    by code_simp
  from null_timestamp_row_skipped [OF h, of "take 1 straddling_history"
      "drop 1 straddling_history" "''r1''" "Some 200"] h k
  show ?thesis by simp
qed

text \<open>
  C10, as the code has it: the fetcher returns at most one record per row, and the
  \<open>miner_id\<close> of a record is the one extracted from the last key of its row that has a
  recognized prefix and a value other than \<open>None\<close>; a recognized key bound to \<open>None\<close> takes
  no branch and overwrites nothing.
\<close>

theorem miner_id_last_effective_key:
  "length (fst (fetch_run_data api run_id start_time))
     \<le> length (api (run_path run_id))
   \<and> (\<forall>r \<in> set (fst (fetch_run_data api run_id start_time)).
        \<exists>row \<in> set (api (run_path run_id)).
          row_get row ''_timestamp'' = timestamp r \<and> effective_keys row \<noteq> []
          \<and> miner_id r = extract_miner_id (last (effective_keys row)))"
proof (intro conjI ballI)
  show "length (fst (fetch_run_data api run_id start_time))
     \<le> length (api (run_path run_id))"
    by (simp add: fetch_run_data_def scan_db_length)
next
  fix r assume "r \<in> set (fst (fetch_run_data api run_id start_time))"
  then have "r \<in> set (scan_history_db run_id start_time (api (run_path run_id)))"
    by (simp add: fetch_run_data_def)
  from scan_db_emitted [OF this]
  obtain row ts where row: "row \<in> set (api (run_path run_id))"
    and ts: "row_get row ''_timestamp'' = Some ts"
    and r: "r = scan_items row (init_row run_id (Some ts))" and pop: "all_populated r"
    by blast
  from pop have eff: "effective_keys row \<noteq> []"
    unfolding r by (rule populated_effective)
  have "timestamp r = Some ts" by (simp add: r scan_items_timestamp init_row_def)
  moreover from eff have "miner_id r = extract_miner_id (last (effective_keys row))"
    by (simp add: r scan_items_miner_id)
  ultimately show "\<exists>row \<in> set (api (run_path run_id)).
          row_get row ''_timestamp'' = timestamp r \<and> effective_keys row \<noteq> []
          \<and> miner_id r = extract_miner_id (last (effective_keys row))"
    using row ts eff by (intro bexI [of _ row]) simp_all
qed

theorem miner_id_last_effective_key_witness:
  "scenario_record \<in> set (fst (fetch_run_data (\<lambda>path. one_row_history) ''r1'' None))
   \<and> (\<exists>row \<in> set one_row_history.
         row_get row ''_timestamp'' = timestamp scenario_record \<and> effective_keys row \<noteq> []
       \<and> miner_id scenario_record = extract_miner_id (last (effective_keys row)))"
proof -
  have h: "scenario_record \<in> set (fst (fetch_run_data (\<lambda>path. one_row_history) ''r1'' None))"
    by code_simp
  from miner_id_last_effective_key [of "\<lambda>path. one_row_history" "''r1''" None] h
  show ?thesis by blast
qed

text \<open>
  C10 as stated fails: in the row of \<open>null_last_history\<close> the last key with a recognized
  prefix names miner 2 and is bound to \<open>None\<close>; the record emitted keeps miner 1.
\<close>

theorem miner_id_null_value_counterexample:
  "map miner_id (fst (fetch_run_data (\<lambda>path. null_last_history) ''r1'' None)) = [Some 1]
   \<and> fst (last (hd null_last_history)) = ''TextEmbeddingSynapse_raw_scores.2''
   \<and> recognized_key ''TextEmbeddingSynapse_raw_scores.2''
   \<and> extract_miner_id ''TextEmbeddingSynapse_raw_scores.2'' = Some 2"
  by code_simp

section \<open>Properties of the publisher\<close>

subsection \<open>One attempt\<close>

lemma enumerate_records_in_range:
  "idx + length entries \<le> length recs \<Longrightarrow>
     enumerate_records recs idx entries codes failed =
       Inr (codes @ map (\<lambda>res. the (ErrorCode res)) (filter has_error_code entries),
            failed @ map fst (filter (\<lambda>p. has_error_code (snd p)) (zip (drop idx recs) entries)))"
proof (induction entries arbitrary: idx codes failed)
  case Nil
  then show ?case by simp
next
  case (Cons res rest)
  from Cons.prems have idx: "idx < length recs" and rest: "Suc idx + length rest \<le> length recs"
    by simp_all
  from idx have drop: "drop idx recs = recs ! idx # drop (Suc idx) recs"
    by (simp add: Cons_nth_drop_Suc)
  show ?case
    by (simp add: Cons.IH [OF rest] drop idx)
qed

lemma zip_filter_nths:
  "map fst (filter (\<lambda>p. P (snd p)) (zip recs entries)) =
     nths recs {i. i < length entries \<and> P (entries ! i)}"
proof (induction recs arbitrary: entries)
  case Nil
  then show ?case by simp
next
  case (Cons x recs)
  show ?case
  proof (cases entries)
    case Nil
    then show ?thesis by simp
  next
    case (Cons e es)
    have "{j. Suc j \<in> {i. i < length (e # es) \<and> P ((e # es) ! i)}} = {j. j < length es \<and> P (es ! j)}"
      by auto
    with Cons Cons.IH [of es] show ?thesis
      by (simp add: nths_Cons)
  qed
qed

lemma enumerate_records_nths:
  assumes "length (Records response) \<le> length recs"
  shows "\<exists>codes. enumerate_records recs 0 (Records response) [] [] =
           Inr (codes, nths recs (rejected_positions response))"
proof -
  have "rejected_positions response =
      {i. i < length (Records response) \<and> has_error_code (Records response ! i)}"
    by (auto simp: rejected_positions_def)
  with enumerate_records_in_range [of 0 "Records response" recs "[]" "[]"] assms
  show ?thesis by (simp add: zip_filter_nths)
qed

lemma failed_after_partial:
  assumes "FailedRecordCount response > 0" "length (Records response) \<le> length recs"
  shows "\<exists>msg. failed_after recs (Returns response) =
           Inr (nths recs (rejected_positions response), msg)"
proof -
  from enumerate_records_nths [OF assms(2)] obtain codes where
    "enumerate_records recs 0 (Records response) [] [] =
       Inr (codes, nths recs (rejected_positions response))" by blast
  with assms(1) show ?thesis by (simp add: failed_after_def)
qed

lemma sent_first:
  "\<exists>rest. fst (snd (put_records_to_kinesis recs kinesis_client st stream_name retry_times))
     = recs # rest"
  by (subst put_records_to_kinesis.simps) (auto split: prod.splits sum.splits)

lemma put_records_retry:
  assumes "kinesis_client st recs stream_name = (out, st')"
    and "failed_after recs out = Inr (failed_records, msg)"
    and "failed_records \<noteq> []" and "retry_times > 0"
  shows "put_records_to_kinesis recs kinesis_client st stream_name retry_times =
           (case put_records_to_kinesis failed_records kinesis_client st' stream_name
                   (retry_times - 1) of
              (res, sent, st'') \<Rightarrow> (res, recs # sent, st''))"
  using assms by (subst put_records_to_kinesis.simps) simp


lemma put_records_done:
  assumes "kinesis_client st recs stream_name = (out, st')"
    and "failed_after recs out = Inr ([], msg)"
  shows "put_records_to_kinesis recs kinesis_client st stream_name retry_times =
           (Inr (), [recs], st')"
  using assms by (subst put_records_to_kinesis.simps) simp

lemma take2_retry:
  assumes "kinesis_client st recs stream_name = (out, st')"
    and "failed_after recs out = Inr (failed_records, msg)"
    and "failed_records \<noteq> []" and "retry_times > 0"
  shows "take 2 (fst (snd (put_records_to_kinesis recs kinesis_client st stream_name retry_times)))
           = [recs, failed_records]"
proof -
  obtain rest where
    "fst (snd (put_records_to_kinesis failed_records kinesis_client st' stream_name
       (retry_times - 1))) = failed_records # rest"
    using sent_first [of failed_records kinesis_client st' stream_name "retry_times - 1"]
    by blast
  moreover note put_records_retry
    [of kinesis_client st recs stream_name out st' failed_records msg retry_times]
  ultimately show ?thesis
    using assms by (simp split: prod.splits)
qed




subsection \<open>The retry rounds\<close>



lemma put_records_empty:
  fixes kinesis_client :: "('s, 'r) kinesis_client"
  assumes "\<forall>response. fst (kinesis_client st [] stream_name) = Returns response \<longrightarrow>
             Records response = []"
  shows "put_records_to_kinesis [] kinesis_client st stream_name retry_times =
           (Inr (), [[]], snd (kinesis_client st [] stream_name))"
proof -
  obtain out st' where call: "kinesis_client st [] stream_name = (out, st')"
    by (cases "kinesis_client st [] stream_name")
  have "\<exists>msg. failed_after ([] :: 'r list) out = Inr ([], msg)"
  proof (cases out)
    case (Raises e)
    then show ?thesis by (simp add: failed_after_def)
  next
    case (Returns response)
    with assms call have "Records response = []" by simp
    with Returns show ?thesis by (simp add: failed_after_def)
  qed
  then obtain msg where "failed_after ([] :: 'r list) out = Inr ([], msg)" by blast
  with call have "put_records_to_kinesis [] kinesis_client st stream_name retry_times =
      (Inr (), [[]], st')" by (rule put_records_done)
  with call show ?thesis by simp
qed

subsection \<open>The batch built by the codec\<close>

lemma build_records_map:
  "build_records json_dumps py_hash rows acc = acc @ map (encode_row json_dumps py_hash) rows"
  by (induction rows arbitrary: acc) simp_all

subsection \<open>The claims on the publisher and the codec\<close>

text \<open>
  C3: when the request on a batch of \<open>N\<close> records returns a response that counts failures,
  has one entry per record and carries an error code at the positions \<open>S\<close> (not empty), and
  a retry remains, the first two batches submitted are the batch and then exactly its records
  at the positions \<open>S\<close>, in their order in the batch.
\<close>

theorem partial_failure_retries_rejected:
  assumes "kinesis_client st batch stream_name = (Returns response, st')"
    and "FailedRecordCount response > 0"
    and "length (Records response) = length batch"
    and "rejected_positions response \<noteq> {}"
    and "retry_times > 0"
  shows "take 2 (fst (snd (put_records_to_kinesis batch kinesis_client st stream_name retry_times)))
           = [batch, nths batch (rejected_positions response)]"
proof -
  from failed_after_partial [of response batch] assms(2,3) obtain msg where
    fa: "failed_after batch (Returns response) =
           Inr (nths batch (rejected_positions response), msg)" by auto
  from assms(4) obtain i where "i \<in> rejected_positions response" by blast
  with assms(3) have "batch ! i \<in> set (nths batch (rejected_positions response))"
    by (auto simp: set_nths rejected_positions_def)
  then have ne: "nths batch (rejected_positions response) \<noteq> []" by auto
  from assms(1) fa ne assms(5) show ?thesis by (rule take2_retry)
qed

theorem partial_failure_retries_rejected_witness:
  "picky_client 0 [10, 20, 30 :: nat] ''stream'' =
     (Returns \<lparr>FailedRecordCount = 2, Records = alternate 3\<rparr>, 1)
   \<and> rejected_positions \<lparr>FailedRecordCount = 2, Records = alternate 3\<rparr> = {0, 2}
   \<and> take 2 (fst (snd (put_records_to_kinesis [10, 20, 30 :: nat] picky_client 0 ''stream'' 1)))
       = [[10, 20, 30], nths [10, 20, 30] {0, 2}]
   \<and> nths [10, 20, 30 :: nat] {0, 2} = [10, 30]"
proof -
  let ?resp = "\<lparr>FailedRecordCount = 2, Records = alternate 3\<rparr>"
  have alt: "alternate 3 =
      [\<lparr>ErrorCode = Some ''InternalFailure''\<rparr>, \<lparr>ErrorCode = None\<rparr>,
       \<lparr>ErrorCode = Some ''InternalFailure''\<rparr>]"
    by (simp add: eval_nat_numeral)
  have call: "picky_client 0 [10, 20, 30 :: nat] ''stream'' = (Returns ?resp, 1)"
    by (simp add: picky_client_def alt)
  have cnt: "FailedRecordCount ?resp > 0" by simp
  have len: "length (Records ?resp) = length [10, 20, 30 :: nat]"
    by (simp add: eval_nat_numeral)
  have pos: "rejected_positions ?resp = {0, 2}"
    by code_simp
  then have ne: "rejected_positions ?resp \<noteq> {}" by simp
  have sel: "nths [10, 20, 30 :: nat] {0, 2} = [10, 30]"
    by (simp add: nths_Cons)
  from partial_failure_retries_rejected [of picky_client 0 "[10, 20, 30 :: nat]" "''stream''" ?resp 1 1]
    call cnt len ne pos sel
  show ?thesis by simp
qed



text \<open>
  C5: when the request raises, the failed records are the whole batch; on a batch that is
  not empty and with a retry left, the next batch submitted is the whole batch again.
\<close>

theorem transport_failure_retries_all:
  assumes "kinesis_client st batch stream_name = (Raises e, st')"
  shows "failed_after batch (Raises e) = Inr (batch, e)
       \<and> (batch \<noteq> [] \<and> retry_times > 0 \<longrightarrow>
            take 2 (fst (snd (put_records_to_kinesis batch kinesis_client st stream_name
              retry_times))) = [batch, batch])"
proof -
  have fa: "failed_after batch (Raises e) = Inr (batch, e)"
    by (simp add: failed_after_def)
  have "take 2 (fst (snd (put_records_to_kinesis batch kinesis_client st stream_name
      retry_times))) = [batch, batch]" if "batch \<noteq> []" "retry_times > 0"
    using assms fa that by (rule take2_retry)
  with fa show ?thesis by blast
qed

theorem transport_failure_retries_all_witness:
  "down_client () [10, 20 :: nat] ''stream'' = (Raises ''connection refused'', ())
   \<and> failed_after [10, 20 :: nat] (Raises ''connection refused'')
       = Inr ([10, 20], ''connection refused'')
   \<and> [10, 20 :: nat] \<noteq> [] \<and> (0 :: int) < 1
   \<and> take 2 (fst (snd (put_records_to_kinesis [10, 20 :: nat] down_client () ''stream'' 1)))
       = [[10, 20], [10, 20]]"
proof -
  have call: "down_client () [10, 20 :: nat] ''stream'' = (Raises ''connection refused'', ())"
    by (simp add: down_client_def)
  from transport_failure_retries_all [of down_client "()" "[10, 20 :: nat]" "''stream''"
      "''connection refused''" "()" 1] call
  show ?thesis by simp
qed

text \<open>
  C7: on an empty batch, with a sink whose response has one entry per record submitted, the
  publisher makes one request that carries no record and returns normally: nothing is
  retried and nothing is raised, whatever the retry counter and whether the request raises
  or returns. So does \<open>send_to_kinesis\<close> on an empty data frame.
\<close>

theorem empty_batch_succeeds:
  assumes "\<forall>response. fst (kinesis_client st [] stream_name) = Returns response \<longrightarrow>
             length (Records response) = length ([] :: publish_record list)"
  shows "put_records_to_kinesis [] kinesis_client st stream_name retry_times =
           (Inr (), [[]], snd (kinesis_client st [] stream_name))
       \<and> send_to_kinesis json_dumps py_hash [] stream_name kinesis_client st =
           (Inr (), [[]], snd (kinesis_client st [] stream_name))"
proof -
  from assms have "\<forall>response. fst (kinesis_client st [] stream_name) = Returns response \<longrightarrow>
             Records response = []" by simp
  with put_records_empty [of kinesis_client st stream_name] show ?thesis
    by (simp add: send_to_kinesis_def)
qed

theorem empty_batch_succeeds_witness:
  "fst (flaky_client 2 ([] :: publish_record list) ''stream'') =
     Returns \<lparr>FailedRecordCount = 0, Records = []\<rparr>
   \<and> put_records_to_kinesis ([] :: publish_record list) flaky_client 2 ''stream'' 0 =
       (Inr (), [[]], 3)
   \<and> send_to_kinesis (\<lambda>row. ''{}'') (\<lambda>s. int (length s)) [] ''stream'' flaky_client 2 =
       (Inr (), [[] :: publish_record list], 3)"
proof -
  have call: "flaky_client 2 ([] :: publish_record list) ''stream'' =
      (Returns \<lparr>FailedRecordCount = 0, Records = []\<rparr>, 3)"
    by (simp add: flaky_client_def)
  then have h: "\<forall>response.
      fst (flaky_client 2 ([] :: publish_record list) ''stream'') = Returns response
       \<longrightarrow> length (Records response) = length ([] :: publish_record list)"
    by auto
  from empty_batch_succeeds [of flaky_client 2 "''stream''" 0 "\<lambda>row. ''{}''"
      "\<lambda>s. int (length s)"] h call
  show ?thesis by simp
qed

text \<open>
  C8: the batch built by \<open>send_to_kinesis\<close> has one record per row of the data frame, the
  record of a row being its encoding: the payload is \<open>json.dumps\<close> of the row followed by
  one newline, the partition key is \<open>str(hash(run_name))\<close>. So, for one \<open>hash\<close> and one
  \<open>json.dumps\<close>, equal rows get equal records, and rows of one run get one partition key.
\<close>

theorem codec_deterministic:
  "length (build_records json_dumps py_hash df []) = length df
   \<and> (\<forall>i < length df.
        build_records json_dumps py_hash df [] ! i =
          \<lparr>Data = json_dumps (df ! i) @ [CHR 0x0A],
           PartitionKey = str_int (py_hash (run_name (df ! i)))\<rparr>)
   \<and> (\<forall>i < length df. \<forall>j < length df.
        (df ! i = df ! j \<longrightarrow>
           build_records json_dumps py_hash df [] ! i = build_records json_dumps py_hash df [] ! j)
      \<and> (run_name (df ! i) = run_name (df ! j) \<longrightarrow>
           PartitionKey (build_records json_dumps py_hash df [] ! i) =
           PartitionKey (build_records json_dumps py_hash df [] ! j)))"
  by (simp add: build_records_map encode_row_def)

theorem codec_deterministic_witness:
  "(0 :: nat) < length [scenario_record, scenario_record]
   \<and> (1 :: nat) < length [scenario_record, scenario_record]
   \<and> [scenario_record, scenario_record] ! 0 = [scenario_record, scenario_record] ! 1
   \<and> build_records (\<lambda>row. ''{}'') (\<lambda>s. int (length s)) [scenario_record, scenario_record] [] ! 0
     = build_records (\<lambda>row. ''{}'') (\<lambda>s. int (length s)) [scenario_record, scenario_record] [] ! 1
   \<and> PartitionKey
       (build_records (\<lambda>row. ''{}'') (\<lambda>s. int (length s)) [scenario_record, scenario_record] [] ! 0)
     = PartitionKey
       (build_records (\<lambda>row. ''{}'') (\<lambda>s. int (length s)) [scenario_record, scenario_record] [] ! 1)"
proof -
  from codec_deterministic [of "\<lambda>row. ''{}''" "\<lambda>s. int (length s)"
      "[scenario_record, scenario_record]"]
  have "\<forall>i < length [scenario_record, scenario_record].
          \<forall>j < length [scenario_record, scenario_record].
     ([scenario_record, scenario_record] ! i = [scenario_record, scenario_record] ! j \<longrightarrow>
       build_records (\<lambda>row. ''{}'') (\<lambda>s. int (length s)) [scenario_record, scenario_record] [] ! i
     = build_records (\<lambda>row. ''{}'') (\<lambda>s. int (length s)) [scenario_record, scenario_record] [] ! j)
   \<and> (run_name ([scenario_record, scenario_record] ! i)
        = run_name ([scenario_record, scenario_record] ! j) \<longrightarrow>
       PartitionKey
         (build_records (\<lambda>row. ''{}'') (\<lambda>s. int (length s)) [scenario_record, scenario_record] [] ! i)
     = PartitionKey
         (build_records (\<lambda>row. ''{}'') (\<lambda>s. int (length s)) [scenario_record, scenario_record] [] ! j))"
    by blast
  then show ?thesis by simp
qed

end
